theory Spec2Isabelle
  imports Complex_Main "HOL-Library.Product_Lexorder" "HOL-Library.Multiset"
begin

section \<open>Floating-point values of the numeric libraries\<close>

text \<open>
  The notebook computes with numpy/pandas double-precision values. A value is modelled as
  a real number (finite results are idealised: no rounding, no overflow, one zero) or one
  of the three special values, which is what a division by zero produces instead of an
  exception.
\<close>

datatype npfloat = Fin real | PInf | NInf | NaN

datatype py_error = ValueError

fun isnull :: "npfloat \<Rightarrow> bool" where
  "isnull NaN = True"
| "isnull _ = False"

text \<open>Comparison \<open>x > y\<close>: every comparison with NaN is false.\<close>

fun np_gt :: "npfloat \<Rightarrow> npfloat \<Rightarrow> bool" where
  "np_gt NaN _ = False"
| "np_gt _ NaN = False"
| "np_gt (Fin a) (Fin b) = (b < a)"
| "np_gt PInf PInf = False"
| "np_gt PInf _ = True"
| "np_gt NInf _ = False"
| "np_gt (Fin a) NInf = True"
| "np_gt (Fin a) PInf = False"

text \<open>The position of a value in an ascending sort: NaN goes last.\<close>

fun sort_rank :: "npfloat \<Rightarrow> nat \<times> real" where
  "sort_rank NInf = (0, 0)"
| "sort_rank (Fin a) = (1, a)"
| "sort_rank PInf = (2, 0)"
| "sort_rank NaN = (3, 0)"

subsection \<open>Arithmetic\<close>

text \<open>
  \<open>+\<close>, \<open>-\<close>, \<open>*\<close> and \<open>/\<close> on numpy scalars follow IEEE 754 on the special values: NaN is
  absorbing, \<open>inf - inf\<close>, \<open>0 * inf\<close>, \<open>inf / inf\<close> and \<open>0 / 0\<close> are NaN, and a nonzero value
  divided by zero is an infinity. numpy reports these with a RuntimeWarning and returns the
  value; it raises nothing.
\<close>

fun np_neg :: "npfloat \<Rightarrow> npfloat" where
  "np_neg (Fin a) = Fin (- a)"
| "np_neg PInf = NInf"
| "np_neg NInf = PInf"
| "np_neg NaN = NaN"

fun np_add :: "npfloat \<Rightarrow> npfloat \<Rightarrow> npfloat" where
  "np_add NaN _ = NaN"
| "np_add _ NaN = NaN"
| "np_add (Fin a) (Fin b) = Fin (a + b)"
| "np_add PInf NInf = NaN"
| "np_add NInf PInf = NaN"
| "np_add PInf _ = PInf"
| "np_add _ PInf = PInf"
| "np_add NInf _ = NInf"
| "np_add _ NInf = NInf"

definition np_sub :: "npfloat \<Rightarrow> npfloat \<Rightarrow> npfloat" where
  "np_sub x y = np_add x (np_neg y)"

fun np_mul :: "npfloat \<Rightarrow> npfloat \<Rightarrow> npfloat" where
  "np_mul NaN _ = NaN"
| "np_mul _ NaN = NaN"
| "np_mul (Fin a) (Fin b) = Fin (a * b)"
| "np_mul (Fin a) PInf = (if a = 0 then NaN else if 0 < a then PInf else NInf)"
| "np_mul (Fin a) NInf = (if a = 0 then NaN else if 0 < a then NInf else PInf)"
| "np_mul PInf (Fin b) = (if b = 0 then NaN else if 0 < b then PInf else NInf)"
| "np_mul NInf (Fin b) = (if b = 0 then NaN else if 0 < b then NInf else PInf)"
| "np_mul PInf PInf = PInf"
| "np_mul PInf NInf = NInf"
| "np_mul NInf PInf = NInf"
| "np_mul NInf NInf = PInf"

fun np_div :: "npfloat \<Rightarrow> npfloat \<Rightarrow> npfloat" where
  "np_div NaN _ = NaN"
| "np_div _ NaN = NaN"
| "np_div (Fin a) (Fin b) =
     (if b = 0 then (if a = 0 then NaN else if 0 < a then PInf else NInf) else Fin (a / b))"
| "np_div (Fin a) PInf = Fin 0"
| "np_div (Fin a) NInf = Fin 0"
| "np_div PInf (Fin b) = (if 0 \<le> b then PInf else NInf)"
| "np_div NInf (Fin b) = (if 0 \<le> b then NInf else PInf)"
| "np_div PInf PInf = NaN"
| "np_div PInf NInf = NaN"
| "np_div NInf PInf = NaN"
| "np_div NInf NInf = NaN"

fun np_sqrt :: "npfloat \<Rightarrow> npfloat" where
  "np_sqrt (Fin a) = (if a < 0 then NaN else Fin (sqrt a))"
| "np_sqrt PInf = PInf"
| "np_sqrt NInf = NaN"
| "np_sqrt NaN = NaN"

text \<open>\<open>x**2\<close>\<close>

definition np_square :: "npfloat \<Rightarrow> npfloat" where
  "np_square x = np_mul x x"

definition np_sum :: "npfloat list \<Rightarrow> npfloat" where
  "np_sum xs = foldr np_add xs (Fin 0)"

text \<open>The mean of an array: the sum over the count, so NaN (\<open>0 / 0\<close>) for an empty one.\<close>

definition np_mean :: "npfloat list \<Rightarrow> npfloat" where
  "np_mean xs = np_div (np_sum xs) (Fin (real (length xs)))"


section \<open>The universe and its buckets (cells 1 and 2)\<close>

text \<open>
  \<open>get_fundamentals(...).T\<close> is a table with one row per asset and the two columns
  \<open>market_cap\<close> and \<open>book_value_yield\<close>; it comes from the data platform and is an input
  here.
\<close>

record fundamentals_row =
  asset :: nat
  market_cap :: npfloat
  book_value_yield :: npfloat

type_synonym fundamentals = "fundamentals_row list"

text \<open>\<open>data.dropna(inplace=True)\<close>: a row with a missing value in any column is dropped.\<close>

definition dropna :: "fundamentals \<Rightarrow> fundamentals" where
  "dropna df = filter (\<lambda>r. \<not> isnull (market_cap r) \<and> \<not> isnull (book_value_yield r)) df"

text \<open>\<open>data = data.loc[data['book_value_yield'] > 0]\<close>\<close>

definition positive_book_value :: "fundamentals \<Rightarrow> fundamentals" where
  "positive_book_value df = filter (\<lambda>r. np_gt (book_value_yield r) (Fin 0)) df"

definition load_data :: "fundamentals \<Rightarrow> fundamentals" where
  "load_data raw = positive_book_value (dropna raw)"

text \<open>
  \<open>data.sort(column)\<close>: the rows in ascending order of one column. Rows with equal values
  keep their order here; nothing below depends on the order among such rows.
\<close>

definition sort_by :: "(fundamentals_row \<Rightarrow> npfloat) \<Rightarrow> fundamentals \<Rightarrow> fundamentals" where
  "sort_by col df = sort_key (\<lambda>r. sort_rank (col r)) df"

text \<open>
  \<open>7*len(data)/10\<close> and \<open>3*len(data)/10\<close> are Python 2 integer expressions: \<open>/\<close> on two
  ints is floor division. A slice \<open>[k:]\<close> drops the first \<open>k\<close> rows, \<open>[:k]\<close> keeps them.
\<close>

definition market_cap_top :: "fundamentals \<Rightarrow> fundamentals" where
  "market_cap_top data = drop (7 * length data div 10) (sort_by market_cap data)"

definition market_cap_bottom :: "fundamentals \<Rightarrow> fundamentals" where
  "market_cap_bottom data = take (3 * length data div 10) (sort_by market_cap data)"

definition bp_top :: "fundamentals \<Rightarrow> fundamentals" where
  "bp_top data = drop (7 * length data div 10) (sort_by book_value_yield data)"

definition bp_bottom :: "fundamentals \<Rightarrow> fundamentals" where
  "bp_bottom data = take (3 * length data div 10) (sort_by book_value_yield data)"

text \<open>The start index of the top bucket as the specification words it: the ceiling of 0.7 N.\<close>

definition spec_top_start :: "nat \<Rightarrow> nat" where
  "spec_top_start n = nat \<lceil>7 * real n / 10\<rceil>"

text \<open>The four buckets of cell 2, all cut from the one table that cell 1 left in \<open>data\<close>.\<close>

definition factor_buckets ::
  "fundamentals \<Rightarrow> (fundamentals \<times> fundamentals) \<times> (fundamentals \<times> fundamentals)" where
  "factor_buckets raw =
    (let data = load_data raw
     in ((market_cap_top data, market_cap_bottom data), (bp_top data, bp_bottom data)))"

definition universe3 :: fundamentals where
  "universe3 =
    [\<lparr>asset = 1, market_cap = Fin 300, book_value_yield = Fin 2\<rparr>,
     \<lparr>asset = 2, market_cap = Fin 100, book_value_yield = Fin 3\<rparr>,
     \<lparr>asset = 3, market_cap = Fin 200, book_value_yield = Fin 1\<rparr>]"

definition universe10 :: fundamentals where
  "universe10 =
    [\<lparr>asset = 1, market_cap = Fin 500, book_value_yield = Fin 10\<rparr>,
     \<lparr>asset = 2, market_cap = Fin 100, book_value_yield = Fin 9\<rparr>,
     \<lparr>asset = 3, market_cap = Fin 900, book_value_yield = Fin 8\<rparr>,
     \<lparr>asset = 4, market_cap = Fin 300, book_value_yield = Fin 7\<rparr>,
     \<lparr>asset = 5, market_cap = Fin 700, book_value_yield = Fin 6\<rparr>,
     \<lparr>asset = 6, market_cap = Fin 200, book_value_yield = Fin 5\<rparr>,
     \<lparr>asset = 7, market_cap = Fin 1000, book_value_yield = Fin 4\<rparr>,
     \<lparr>asset = 8, market_cap = Fin 400, book_value_yield = Fin 3\<rparr>,
     \<lparr>asset = 9, market_cap = Fin 800, book_value_yield = Fin 2\<rparr>,
     \<lparr>asset = 10, market_cap = Fin 600, book_value_yield = Fin 1\<rparr>]"

definition universe_raw :: fundamentals where
  "universe_raw =
    [\<lparr>asset = 1, market_cap = Fin 300, book_value_yield = Fin 2\<rparr>,
     \<lparr>asset = 2, market_cap = Fin 900, book_value_yield = Fin (-1)\<rparr>,
     \<lparr>asset = 3, market_cap = Fin 100, book_value_yield = Fin 3\<rparr>,
     \<lparr>asset = 4, market_cap = NaN, book_value_yield = Fin 5\<rparr>,
     \<lparr>asset = 5, market_cap = Fin 200, book_value_yield = Fin 1\<rparr>,
     \<lparr>asset = 6, market_cap = Fin 400, book_value_yield = Fin 4\<rparr>]"

section \<open>Returns and factors (cells 2 and 3)\<close>


























section \<open>Sensitivities and FMCAR (cells 4 and 5)\<close>

text \<open>
  \<open>np.cov(f1, f2)\<close> stacks the two series as the rows of one array, which fails with a
  ValueError when their lengths differ, subtracts from each row its mean, and divides the
  products of the rows by \<open>N - ddof\<close>, where \<open>ddof = 1\<close> by default; a divisor that is not
  positive is replaced by \<open>0.0\<close>, so that a single observation gives NaN (\<open>0 / 0\<close>). For
  empty series the releases of numpy differ; the definition follows the arithmetic there
  as well, and nothing below depends on it.
\<close>

definition cov_fact :: "nat \<Rightarrow> real" where
  "cov_fact n = (let fact = int n - 1 in if fact \<le> 0 then 0 else real_of_int fact)"

definition demean :: "npfloat list \<Rightarrow> npfloat list" where
  "demean xs = map (\<lambda>x. np_sub x (np_mean xs)) xs"

definition np_dot :: "npfloat list \<Rightarrow> npfloat list \<Rightarrow> npfloat" where
  "np_dot xs ys = np_sum (map2 np_mul xs ys)"

definition cov_entry :: "npfloat list \<Rightarrow> npfloat list \<Rightarrow> npfloat" where
  "cov_entry xs ys = np_div (np_dot (demean xs) (demean ys)) (Fin (cov_fact (length xs)))"

definition np_cov :: "npfloat list \<Rightarrow> npfloat list \<Rightarrow> py_error + npfloat list list" where
  "np_cov m y =
    (if length m \<noteq> length y then Inl ValueError
     else Inr [[cov_entry m m, cov_entry m y], [cov_entry y m, cov_entry y y]])"

text \<open>
  \<open>Series.std()\<close>: the sample standard deviation of the values that are present, normalised
  by \<open>count - ddof\<close> with \<open>ddof = 1\<close> by default, and NaN when \<open>count \<le> ddof\<close>.
\<close>

definition pd_var :: "npfloat list \<Rightarrow> npfloat" where
  "pd_var xs =
    (let vals = filter (\<lambda>x. \<not> isnull x) xs; count = length vals
     in if count \<le> 1 then NaN
        else np_div (np_sum (map np_square (demean vals))) (Fin (real count - 1)))"

definition pd_std :: "npfloat list \<Rightarrow> npfloat" where
  "pd_std xs = np_sqrt (pd_var xs)"

text \<open>
  Cell 5. \<open>b1\<close> and \<open>b2\<close> are the slopes that the regression of cell 4 returned
  (\<open>OLS(active, add_constant(column_stack((f1, f2)))).fit().params[1:]\<close>, a call into
  statsmodels); \<open>f1\<close>, \<open>f2\<close> and \<open>active\<close> are the values of the three series.
\<close>

definition fmcar_cell ::
  "npfloat \<Rightarrow> npfloat \<Rightarrow> npfloat list \<Rightarrow> npfloat list \<Rightarrow> npfloat list
    \<Rightarrow> py_error + (npfloat \<times> npfloat)" where
  "fmcar_cell b1 b2 f1 f2 active =
    (case np_cov f1 f2 of
       Inl e \<Rightarrow> Inl e
     | Inr cov \<Rightarrow>
        (let ar_squared = np_square (pd_std active);
             fmcar1 = np_div (np_mul b1 (np_add (np_mul b2 (cov ! 0 ! 1)) (np_mul b1 (cov ! 0 ! 0))))
                        ar_squared;
             fmcar2 = np_div (np_mul b2 (np_add (np_mul b1 (cov ! 0 ! 1)) (np_mul b2 (cov ! 1 ! 1))))
                        ar_squared
         in Inr (fmcar1, fmcar2)))"

subsection \<open>The formula of the text\<close>

text \<open>
  The first cell of the notebook gives, for \<open>K\<close> factors,
  \<open>FMCAR j = b j * (\<Sum> i = 1..K. b i * Cov (F j) (F i)) / (active risk)\<^sup>2\<close>. Here it is over the
  real numbers, with the sample covariance and the sample variance of the active returns.
\<close>

definition mean :: "real list \<Rightarrow> real" where
  "mean xs = sum_list xs / real (length xs)"

definition dev_products :: "real list \<Rightarrow> real list \<Rightarrow> real" where
  "dev_products xs ys = (\<Sum>(x, y) \<leftarrow> zip xs ys. (x - mean xs) * (y - mean ys))"

definition sample_cov :: "real list \<Rightarrow> real list \<Rightarrow> real" where
  "sample_cov xs ys = dev_products xs ys / (real (length xs) - 1)"

definition sample_var :: "real list \<Rightarrow> real" where
  "sample_var xs = sample_cov xs xs"

definition fmcar_formula :: "real list \<Rightarrow> real list list \<Rightarrow> real list \<Rightarrow> nat \<Rightarrow> real" where
  "fmcar_formula b F active j =
    b ! j * (\<Sum>i \<leftarrow> [0..<length b]. b ! i * sample_cov (F ! j) (F ! i)) / sample_var active"

section \<open>The tracking portfolio of the example\<close>

text \<open>
  The last cell: two factors, a benchmark with sensitivities \<open>(1, 1.1)\<close>, three securities
  with sensitivities \<open>(b\<^sub>i\<^sub>1, b\<^sub>i\<^sub>2)\<close>, and weights that match the benchmark's sensitivities
  and sum to one.
\<close>

type_synonym sensitivities = "real \<times> real"

definition tracking_equations ::
  "sensitivities \<Rightarrow> sensitivities \<Rightarrow> sensitivities \<Rightarrow> sensitivities \<Rightarrow> real \<times> real \<times> real \<Rightarrow> bool" where
  "tracking_equations bench x1 x2 x3 w =
    (case w of (w1, w2, w3) \<Rightarrow>
       w1 * fst x1 + w2 * fst x2 + w3 * fst x3 = fst bench
     \<and> w1 * snd x1 + w2 * snd x2 + w3 * snd x3 = snd bench
     \<and> w1 + w2 + w3 = 1)"

definition example_benchmark :: sensitivities where
  "example_benchmark = (1, 11 / 10)"

definition example_x1 :: sensitivities where
  "example_x1 = (7 / 10, 11 / 10)"

definition example_x2 :: sensitivities where
  "example_x2 = (1 / 10, 1 / 2)"

definition example_x3 :: sensitivities where
  "example_x3 = (3 / 2, 13 / 10)"

section \<open>Bucketing\<close>

lemma length_sort_by: "length (sort_by col df) = length df"
  by (simp add: sort_by_def)

lemma set_sort_by: "set (sort_by col df) = set df"
  by (simp add: sort_by_def)

lemma distinct_sort_by: "distinct (map f (sort_by col df)) = distinct (map f df)"
proof -
  have "mset (map f (sort_by col df)) = mset (map f df)"
    by (simp add: sort_by_def)
  then show ?thesis by (rule mset_eq_imp_distinct_iff)
qed

lemma floor_buckets_ordered: "3 * n div 10 \<le> 7 * (n::nat) div 10"
  by (rule div_le_mono) simp

lemma take_drop_assets_disjoint:
  assumes "distinct (map asset df)" and "i \<le> j"
  shows "asset ` set (take i (sort_by col df)) \<inter> asset ` set (drop j (sort_by col df)) = {}"
proof -
  have d: "distinct (map asset (sort_by col df))"
    using assms(1) by (simp add: distinct_sort_by)
  have "set (take i (map asset (sort_by col df))) \<inter> set (drop j (map asset (sort_by col df))) = {}"
    using d assms(2) by (rule set_take_disj_set_drop_if_distinct)
  then show ?thesis by (simp add: take_map drop_map)
qed

lemma load_data_complete:
  assumes "r \<in> set (load_data raw)"
  shows "\<not> isnull (market_cap r) \<and> \<not> isnull (book_value_yield r)
    \<and> np_gt (book_value_yield r) (Fin 0)"
  using assms by (auto simp: load_data_def positive_book_value_def dropna_def)

text \<open>
  C2, as the specification states it: the top bucket starts at index \<open>\<lceil>0.7 N\<rceil>\<close> and so
  has \<open>N - \<lceil>0.7 N\<rceil>\<close> assets. For three assets the top bucket of the notebook starts
  at index \<open>21 div 10 = 2\<close> and holds one asset, where the ceiling \<open>3\<close> would leave none.
\<close>

theorem top_bucket_ceiling_counterexample:
  "length (market_cap_top universe3) = 1
   \<and> length universe3 - spec_top_start (length universe3) = 0
   \<and> market_cap_top universe3 \<noteq> drop (spec_top_start (length universe3)) (sort_by market_cap universe3)"
  by (simp add: market_cap_top_def universe3_def sort_by_def spec_top_start_def)

text \<open>
  C2, amended: for a universe of \<open>N\<close> assets sorted ascending by a fundamental, the bottom
  bucket is the first \<open>\<lfloor>3N/10\<rfloor>\<close> assets and the top bucket is the rest of the sorted
  table from index \<open>\<lfloor>7N/10\<rfloor>\<close> on, so the top bucket has \<open>N - \<lfloor>7N/10\<rfloor>\<close> assets, for the
  market-capitalisation and the book-to-price ranking alike. With \<open>N = 10\<close> that is 3 assets
  at the bottom, 3 at the top and 4 between them; with \<open>N = 100\<close> it is 30, 30 and 40.
\<close>

theorem bucket_boundaries:
  "length (market_cap_bottom data) = 3 * length data div 10
   \<and> length (market_cap_top data) = length data - 7 * length data div 10
   \<and> length (bp_bottom data) = 3 * length data div 10
   \<and> length (bp_top data) = length data - 7 * length data div 10
   \<and> market_cap_bottom data @ take (7 * length data div 10 - 3 * length data div 10)
         (drop (3 * length data div 10) (sort_by market_cap data)) @ market_cap_top data
       = sort_by market_cap data
   \<and> (length data = 10 \<longrightarrow>
        length (market_cap_bottom data) = 3 \<and> length (market_cap_top data) = 3
        \<and> length data - length (market_cap_bottom data) - length (market_cap_top data) = 4)
   \<and> (length data = 100 \<longrightarrow>
        length (market_cap_bottom data) = 30 \<and> length (market_cap_top data) = 30
        \<and> length data - length (market_cap_bottom data) - length (market_cap_top data) = 40)"
proof -
  let ?n = "length data"
  let ?s = "sort_by market_cap data"
  have le: "3 * ?n div 10 \<le> ?n" by simp
  have b: "length (market_cap_bottom data) = 3 * ?n div 10"
    using le by (simp add: market_cap_bottom_def length_sort_by)
  have t: "length (market_cap_top data) = ?n - 7 * ?n div 10"
    by (simp add: market_cap_top_def length_sort_by)
  have b2: "length (bp_bottom data) = 3 * ?n div 10"
    using le by (simp add: bp_bottom_def length_sort_by)
  have t2: "length (bp_top data) = ?n - 7 * ?n div 10"
    by (simp add: bp_top_def length_sort_by)
  have "take (7 * ?n div 10 - 3 * ?n div 10) (drop (3 * ?n div 10) ?s) @ drop (7 * ?n div 10) ?s
      = drop (3 * ?n div 10) ?s"
    using floor_buckets_ordered [of ?n]
    by (metis append_take_drop_id drop_drop le_add_diff_inverse2)
  then have parts: "market_cap_bottom data @ take (7 * ?n div 10 - 3 * ?n div 10)
         (drop (3 * ?n div 10) ?s) @ market_cap_top data = ?s"
    by (simp add: market_cap_bottom_def market_cap_top_def)
  have ten: "?n = 10 \<longrightarrow> length (market_cap_bottom data) = 3 \<and> length (market_cap_top data) = 3
        \<and> ?n - length (market_cap_bottom data) - length (market_cap_top data) = 4"
    using b t by simp
  have hundred: "?n = 100 \<longrightarrow> length (market_cap_bottom data) = 30 \<and> length (market_cap_top data) = 30
        \<and> ?n - length (market_cap_bottom data) - length (market_cap_top data) = 40"
    using b t by simp
  from b t b2 t2 parts ten hundred show ?thesis by blast
qed

theorem bucket_boundaries_witness:
  "length (replicate 10 (\<lparr>asset = 1, market_cap = Fin 1, book_value_yield = Fin 1\<rparr>)) = 10
   \<and> length (market_cap_bottom (replicate 10 (\<lparr>asset = 1, market_cap = Fin 1, book_value_yield = Fin 1\<rparr>))) = 3
   \<and> length (market_cap_top (replicate 10 (\<lparr>asset = 1, market_cap = Fin 1, book_value_yield = Fin 1\<rparr>))) = 3
   \<and> length (replicate 100 (\<lparr>asset = 1, market_cap = Fin 1, book_value_yield = Fin 1\<rparr>)) = 100
   \<and> length (market_cap_top (replicate 100 (\<lparr>asset = 1, market_cap = Fin 1, book_value_yield = Fin 1\<rparr>))) = 30"
  using bucket_boundaries [of "replicate 10 (\<lparr>asset = 1, market_cap = Fin 1, book_value_yield = Fin 1\<rparr>)"]
    bucket_boundaries [of "replicate 100 (\<lparr>asset = 1, market_cap = Fin 1, book_value_yield = Fin 1\<rparr>)"]
  by simp

text \<open>
  C9: the missing-data drop and the book-to-price positivity filter run once, on the table
  that both rankings then sort. Every asset of the market-capitalisation buckets (and of the
  book-to-price buckets) has both fundamentals present and a strictly positive book-to-price
  yield.
\<close>

theorem market_cap_buckets_filtered:
  assumes "factor_buckets raw = ((mc_top, mc_bottom), (b_top, b_bottom))"
    and "r \<in> set mc_top \<union> set mc_bottom \<union> set b_top \<union> set b_bottom"
  shows "\<not> isnull (market_cap r) \<and> \<not> isnull (book_value_yield r)
    \<and> np_gt (book_value_yield r) (Fin 0)"
proof -
  have "r \<in> set (load_data raw)"
    using assms
    by (auto simp: factor_buckets_def Let_def market_cap_top_def market_cap_bottom_def
        bp_top_def bp_bottom_def set_sort_by dest: in_set_dropD in_set_takeD)
  then show ?thesis by (rule load_data_complete)
qed

theorem market_cap_buckets_filtered_witness:
  "factor_buckets universe_raw =
     (([\<lparr>asset = 1, market_cap = Fin 300, book_value_yield = Fin 2\<rparr>,
        \<lparr>asset = 6, market_cap = Fin 400, book_value_yield = Fin 4\<rparr>],
       [\<lparr>asset = 3, market_cap = Fin 100, book_value_yield = Fin 3\<rparr>]),
      ([\<lparr>asset = 3, market_cap = Fin 100, book_value_yield = Fin 3\<rparr>,
        \<lparr>asset = 6, market_cap = Fin 400, book_value_yield = Fin 4\<rparr>],
       [\<lparr>asset = 5, market_cap = Fin 200, book_value_yield = Fin 1\<rparr>]))
   \<and> \<not> isnull (market_cap \<lparr>asset = 6, market_cap = Fin 400, book_value_yield = Fin 4\<rparr>)
   \<and> np_gt (book_value_yield \<lparr>asset = 6, market_cap = Fin 400, book_value_yield = Fin 4\<rparr>) (Fin 0)"
proof -
  have b: "factor_buckets universe_raw =
     (([\<lparr>asset = 1, market_cap = Fin 300, book_value_yield = Fin 2\<rparr>,
        \<lparr>asset = 6, market_cap = Fin 400, book_value_yield = Fin 4\<rparr>],
       [\<lparr>asset = 3, market_cap = Fin 100, book_value_yield = Fin 3\<rparr>]),
      ([\<lparr>asset = 3, market_cap = Fin 100, book_value_yield = Fin 3\<rparr>,
        \<lparr>asset = 6, market_cap = Fin 400, book_value_yield = Fin 4\<rparr>],
       [\<lparr>asset = 5, market_cap = Fin 200, book_value_yield = Fin 1\<rparr>]))"
    by (simp add: factor_buckets_def load_data_def positive_book_value_def dropna_def
        universe_raw_def market_cap_top_def market_cap_bottom_def bp_top_def bp_bottom_def
        sort_by_def)
  show ?thesis
    using b market_cap_buckets_filtered [OF b,
        of "\<lparr>asset = 6, market_cap = Fin 400, book_value_yield = Fin 4\<rparr>"]
    by simp
qed

text \<open>
  C10: \<open>\<lfloor>3N/10\<rfloor> \<le> \<lfloor>7N/10\<rfloor>\<close> for every \<open>N\<close>, so the rows \<open>0 .. \<lfloor>3N/10\<rfloor> - 1\<close> of the
  ascending sort and the rows \<open>\<lfloor>7N/10\<rfloor> .. N - 1\<close> do not overlap: in a universe that lists
  each asset once, no asset is in both the top and the bottom bucket of a factor.
\<close>

theorem buckets_disjoint:
  assumes "distinct (map asset data)"
  shows "3 * length data div 10 \<le> 7 * length data div 10
    \<and> asset ` set (market_cap_bottom data) \<inter> asset ` set (market_cap_top data) = {}
    \<and> asset ` set (bp_bottom data) \<inter> asset ` set (bp_top data) = {}"
  using take_drop_assets_disjoint [OF assms floor_buckets_ordered, of "length data"]
    floor_buckets_ordered [of "length data"]
  by (simp add: market_cap_bottom_def market_cap_top_def bp_bottom_def bp_top_def)

theorem buckets_disjoint_witness:
  "distinct (map asset universe10)
   \<and> map asset (market_cap_bottom universe10) = [2, 6, 4]
   \<and> map asset (market_cap_top universe10) = [9, 3, 7]
   \<and> map asset (bp_bottom universe10) = [10, 9, 8]
   \<and> map asset (bp_top universe10) = [3, 2, 1]
   \<and> asset ` set (market_cap_bottom universe10) \<inter> asset ` set (market_cap_top universe10) = {}
   \<and> asset ` set (bp_bottom universe10) \<inter> asset ` set (bp_top universe10) = {}"
proof -
  have d: "distinct (map asset universe10)" by (simp add: universe10_def)
  have mb: "map asset (market_cap_bottom universe10) = [2, 6, 4]"
    by (simp add: market_cap_bottom_def universe10_def sort_by_def)
  have mt: "map asset (market_cap_top universe10) = [9, 3, 7]"
    by (simp add: market_cap_top_def universe10_def sort_by_def)
  have bb: "map asset (bp_bottom universe10) = [10, 9, 8]"
    by (simp add: bp_bottom_def universe10_def sort_by_def)
  have bt: "map asset (bp_top universe10) = [3, 2, 1]"
    by (simp add: bp_top_def universe10_def sort_by_def)
  have disj: "asset ` set (market_cap_bottom universe10) \<inter> asset ` set (market_cap_top universe10) = {}
      \<and> asset ` set (bp_bottom universe10) \<inter> asset ` set (bp_top universe10) = {}"
    using buckets_disjoint [OF d] by blast
  from d mb mt bb bt disj show ?thesis by blast
qed

section \<open>Return series\<close>













section \<open>Covariance, variance and FMCAR on finite data\<close>

lemma np_sum_Fin: "np_sum (map (\<lambda>x. Fin (f x)) xs) = Fin (\<Sum>x \<leftarrow> xs. f x)"
  by (induction xs) (simp_all add: np_sum_def)

lemma np_mean_Fin: "xs \<noteq> [] \<Longrightarrow> np_mean (map Fin xs) = Fin (mean xs)"
  using np_sum_Fin [of "\<lambda>x. x" xs] by (simp add: np_mean_def mean_def)

lemma demean_Fin: "xs \<noteq> [] \<Longrightarrow> demean (map Fin xs) = map (\<lambda>x. Fin (x - mean xs)) xs"
  by (simp add: demean_def np_mean_Fin np_sub_def comp_def)

lemma np_dot_Fin:
  "np_dot (map (\<lambda>x. Fin (f x)) xs) (map (\<lambda>y. Fin (g y)) ys) = Fin (\<Sum>(x, y) \<leftarrow> zip xs ys. f x * g y)"
proof -
  have "map2 np_mul (map (\<lambda>x. Fin (f x)) xs) (map (\<lambda>y. Fin (g y)) ys)
      = map (\<lambda>p. Fin (f (fst p) * g (snd p))) (zip xs ys)"
    by (simp add: zip_map_map split_def)
  then show ?thesis
    using np_sum_Fin [of "\<lambda>p. f (fst p) * g (snd p)" "zip xs ys"]
    by (simp add: np_dot_def split_def)
qed

lemma dot_demeaned:
  "np_dot (demean (map Fin xs)) (demean (map Fin ys)) = Fin (dev_products xs ys)"
proof (cases "xs = [] \<or> ys = []")
  case True
  then show ?thesis by (auto simp: np_dot_def np_sum_def demean_def dev_products_def)
next
  case False
  then show ?thesis by (simp add: demean_Fin np_dot_Fin dev_products_def)
qed

lemma cov_fact_ge2: "2 \<le> n \<Longrightarrow> cov_fact n = real n - 1"
  by (simp add: cov_fact_def Let_def)

lemma cov_fact_le1: "n \<le> 1 \<Longrightarrow> cov_fact n = 0"
  by (simp add: cov_fact_def Let_def)

lemma cov_entry_Fin:
  assumes "2 \<le> length xs"
  shows "cov_entry (map Fin xs) (map Fin ys) = Fin (sample_cov xs ys)"
  using assms by (simp add: cov_entry_def dot_demeaned cov_fact_ge2 sample_cov_def)

lemma dev_products_commute: "dev_products xs ys = dev_products ys xs"
proof -
  have "zip ys xs = map (\<lambda>(x, y). (y, x)) (zip xs ys)" by (rule zip_commute)
  then show ?thesis by (simp add: dev_products_def split_def comp_def mult.commute)
qed

lemma sample_cov_commute: "length xs = length ys \<Longrightarrow> sample_cov xs ys = sample_cov ys xs"
  by (simp add: sample_cov_def dev_products_commute [of xs ys])

lemma dev_products_self: "dev_products xs xs = (\<Sum>x \<leftarrow> xs. (x - mean xs)\<^sup>2)"
  by (simp add: dev_products_def zip_same_conv_map comp_def power2_eq_square)

lemma dev_products_self_nonneg: "0 \<le> dev_products xs xs"
  unfolding dev_products_self by (rule sum_list_nonneg) auto

lemma sample_var_nonneg: "2 \<le> length xs \<Longrightarrow> 0 \<le> sample_var xs"
  by (simp add: sample_var_def sample_cov_def dev_products_self_nonneg)

lemma squares_demeaned:
  "np_sum (map np_square (demean (map Fin xs))) = Fin (dev_products xs xs)"
proof -
  have "map np_square (demean (map Fin xs)) = map2 np_mul (demean (map Fin xs)) (demean (map Fin xs))"
    by (simp add: zip_same_conv_map np_square_def comp_def)
  then show ?thesis using dot_demeaned [of xs xs] by (simp add: np_dot_def)
qed

lemma pd_var_Fin:
  assumes "2 \<le> length xs"
  shows "pd_var (map Fin xs) = Fin (sample_var xs)"
proof -
  have f: "filter (\<lambda>x. \<not> isnull x) (map Fin xs) = map Fin xs"
    by (induction xs) simp_all
  show ?thesis using assms
    by (simp add: pd_var_def f Let_def squares_demeaned sample_var_def sample_cov_def)
qed

lemma ar_squared_Fin:
  assumes "2 \<le> length xs"
  shows "np_square (pd_std (map Fin xs)) = Fin (sample_var xs)"
  using assms sample_var_nonneg [OF assms]
  by (simp add: pd_std_def pd_var_Fin np_square_def)

lemma pd_var_short:
  assumes "length xs \<le> 1"
  shows "pd_var xs = NaN"
proof -
  have "length (filter (\<lambda>x. \<not> isnull x) xs) \<le> length xs" by (rule length_filter_le)
  with assms have "length (filter (\<lambda>x. \<not> isnull x) xs) \<le> 1" by linarith
  then show ?thesis by (simp add: pd_var_def Let_def)
qed

lemma cov_entry_short: "length xs \<le> 1 \<Longrightarrow> cov_entry (map Fin xs) (map Fin ys) = NaN"
proof -
  assume a: "length xs \<le> 1"
  have "dev_products xs ys = 0"
  proof (cases xs)
    case Nil then show ?thesis by (simp add: dev_products_def)
  next
    case (Cons x xs')
    with a have "xs = [x]" by simp
    then show ?thesis by (cases ys) (simp_all add: dev_products_def mean_def)
  qed
  with a show ?thesis by (simp add: cov_entry_def dot_demeaned cov_fact_le1)
qed


lemma np_cov_Fin:
  assumes "length f1 = length f2" and "2 \<le> length f1"
  shows "np_cov (map Fin f1) (map Fin f2) =
    Inr [[Fin (sample_cov f1 f1), Fin (sample_cov f1 f2)],
         [Fin (sample_cov f2 f1), Fin (sample_cov f2 f2)]]"
  using assms by (simp add: np_cov_def cov_entry_Fin)


lemma fmcar_cell_Fin:
  assumes "length f1 = length f2" and "2 \<le> length f1" and "2 \<le> length active"
  shows "fmcar_cell (Fin b1) (Fin b2) (map Fin f1) (map Fin f2) (map Fin active) =
      Inr (np_div (Fin (b1 * (b2 * sample_cov f1 f2 + b1 * sample_cov f1 f1)))
             (Fin (sample_var active)),
           np_div (Fin (b2 * (b1 * sample_cov f1 f2 + b2 * sample_cov f2 f2)))
             (Fin (sample_var active)))"
  by (simp add: fmcar_cell_def np_cov_Fin [OF assms(1,2)] ar_squared_Fin [OF assms(3)])

text \<open>
  C1: for two factor series of equal length and an active-return series (at least two
  observations each, so that the sample moments exist) and any slopes \<open>b1\<close>, \<open>b2\<close> handed
  over by the regression, cell 5 computes
  \<open>fmcar1 = b1 * (b1 * Cov(F1,F1) + b2 * Cov(F1,F2)) / Var(active)\<close> and
  \<open>fmcar2 = b2 * (b1 * Cov(F2,F1) + b2 * Cov(F2,F2)) / Var(active)\<close>, with the sample
  covariance of the factors and the sample variance of the active returns; where that
  variance is not zero these are the values of the formula of the text for \<open>K = 2\<close>.
\<close>

theorem fmcar_two_factors:
  assumes "length f1 = length f2" and "2 \<le> length f1" and "2 \<le> length active"
  shows "fmcar_cell (Fin b1) (Fin b2) (map Fin f1) (map Fin f2) (map Fin active) =
      Inr (np_div (Fin (b1 * (b1 * sample_cov f1 f1 + b2 * sample_cov f1 f2)))
             (Fin (sample_var active)),
           np_div (Fin (b2 * (b1 * sample_cov f2 f1 + b2 * sample_cov f2 f2)))
             (Fin (sample_var active)))
    \<and> (sample_var active \<noteq> 0 \<longrightarrow>
        fmcar_cell (Fin b1) (Fin b2) (map Fin f1) (map Fin f2) (map Fin active) =
          Inr (Fin (fmcar_formula [b1, b2] [f1, f2] active 0),
               Fin (fmcar_formula [b1, b2] [f1, f2] active 1)))"
proof -
  have sym: "sample_cov f2 f1 = sample_cov f1 f2"
    using assms(1) by (simp add: sample_cov_commute)
  have n1: "b1 * (b2 * sample_cov f1 f2 + b1 * sample_cov f1 f1)
      = b1 * (b1 * sample_cov f1 f1 + b2 * sample_cov f1 f2)"
    by (simp add: add.commute)
  have first: "fmcar_cell (Fin b1) (Fin b2) (map Fin f1) (map Fin f2) (map Fin active) =
      Inr (np_div (Fin (b1 * (b1 * sample_cov f1 f1 + b2 * sample_cov f1 f2)))
             (Fin (sample_var active)),
           np_div (Fin (b2 * (b1 * sample_cov f2 f1 + b2 * sample_cov f2 f2)))
             (Fin (sample_var active)))"
    unfolding fmcar_cell_Fin [OF assms] n1 sym ..
  have formula0: "fmcar_formula [b1, b2] [f1, f2] active 0
      = b1 * (b1 * sample_cov f1 f1 + b2 * sample_cov f1 f2) / sample_var active"
    by (simp add: fmcar_formula_def)
  have formula1: "fmcar_formula [b1, b2] [f1, f2] active 1
      = b2 * (b1 * sample_cov f2 f1 + b2 * sample_cov f2 f2) / sample_var active"
    by (simp add: fmcar_formula_def)
  show ?thesis
    unfolding formula0 formula1 using first by simp
qed

theorem fmcar_two_factors_witness:
  "fmcar_cell (Fin 1) (Fin 2) (map Fin [1, 2, 3]) (map Fin [1, 3, 2]) (map Fin [0, 2, 4]) =
     Inr (Fin (1 / 2), Fin (5 / 4))
   \<and> fmcar_formula [1, 2] [[1, 2, 3], [1, 3, 2]] [0, 2, 4] 0 = 1 / 2
   \<and> fmcar_formula [1, 2] [[1, 2, 3], [1, 3, 2]] [0, 2, 4] 1 = 5 / 4"
proof -
  have v: "sample_var [0, 2, 4] = 4"
    by (simp add: sample_var_def sample_cov_def dev_products_def mean_def)
  have c: "sample_cov [1, 2, 3] [1, 2, 3] = 1" "sample_cov [1, 2, 3] [1, 3, 2] = 1 / 2"
    "sample_cov [1, 3, 2] [1, 2, 3] = 1 / 2" "sample_cov [1, 3, 2] [1, 3, 2] = 1"
    by (simp_all add: sample_cov_def dev_products_def mean_def)
  show ?thesis
    using fmcar_two_factors [of "[1, 2, 3]" "[1, 3, 2]" "[0, 2, 4]" 1 2]
    by (simp add: v c fmcar_formula_def)
qed

text \<open>
  C4, as the specification states it: a zero variance of the active returns makes the FMCAR
  computation fail with a division-by-zero error. Three equal active returns have variance
  zero, and cell 5 returns a pair of values all the same: NaN twice for slopes \<open>0\<close> (the
  numerators are zero), and minus and plus infinity for the slopes \<open>1\<close> and \<open>-4\<close>.
\<close>

theorem fmcar_zero_variance_counterexample:
  "pd_var (map Fin [1 / 4, 1 / 4, 1 / 4]) = Fin 0
   \<and> fmcar_cell (Fin 0) (Fin 0) (map Fin [1, 2, 3]) (map Fin [1, 3, 2])
        (map Fin [1 / 4, 1 / 4, 1 / 4]) = Inr (NaN, NaN)
   \<and> fmcar_cell (Fin 1) (Fin (- 4)) (map Fin [1, 2, 3]) (map Fin [1, 3, 2])
        (map Fin [1 / 4, 1 / 4, 1 / 4]) = Inr (NInf, PInf)"
  by (simp add: fmcar_cell_def np_cov_def cov_entry_def np_dot_def demean_def np_mean_def
      np_sum_def np_sub_def cov_fact_def pd_std_def pd_var_def np_square_def)

text \<open>
  C4, amended: if the sample variance of the active returns is zero, cell 5 raises nothing;
  each FMCAR value is NaN when its numerator is zero, plus infinity when the numerator is
  positive and minus infinity when it is negative.
\<close>

theorem fmcar_zero_variance:
  assumes "length f1 = length f2" and "2 \<le> length f1" and "2 \<le> length active"
    and "sample_var active = 0"
  shows "fmcar_cell (Fin b1) (Fin b2) (map Fin f1) (map Fin f2) (map Fin active) =
      Inr (let n1 = b1 * (b2 * sample_cov f1 f2 + b1 * sample_cov f1 f1)
           in if n1 = 0 then NaN else if 0 < n1 then PInf else NInf,
           let n2 = b2 * (b1 * sample_cov f1 f2 + b2 * sample_cov f2 f2)
           in if n2 = 0 then NaN else if 0 < n2 then PInf else NInf)"
  unfolding fmcar_cell_Fin [OF assms(1,2,3)] using assms(4) by (simp add: Let_def)

theorem fmcar_zero_variance_witness:
  "sample_var [1 / 4, 1 / 4, 1 / 4] = 0
   \<and> fmcar_cell (Fin 1) (Fin (- 4)) (map Fin [1, 2, 3]) (map Fin [1, 3, 2])
        (map Fin [1 / 4, 1 / 4, 1 / 4]) = Inr (NInf, PInf)"
proof -
  have v: "sample_var [1 / 4, 1 / 4, 1 / 4] = 0"
    by (simp add: sample_var_def sample_cov_def dev_products_def mean_def)
  have c: "sample_cov [1, 2, 3] [1, 2, 3] = 1" "sample_cov [1, 2, 3] [1, 3, 2] = 1 / 2"
    "sample_cov [1, 3, 2] [1, 3, 2] = 1"
    by (simp_all add: sample_cov_def dev_products_def mean_def)
  have "fmcar_cell (Fin 1) (Fin (- 4)) (map Fin [1, 2, 3]) (map Fin [1, 3, 2])
        (map Fin [1 / 4, 1 / 4, 1 / 4]) = Inr (NInf, PInf)"
    using fmcar_zero_variance [of "[1, 2, 3]" "[1, 3, 2]" "[1 / 4, 1 / 4, 1 / 4]" 1 "- 4"] v
    by (simp add: c Let_def)
  with v show ?thesis by simp
qed

text \<open>
  C5: with one factor the formula of the text is \<open>b1\<^sup>2 * Var(F1) / Var(active)\<close>, the
  covariance matrix being the variance of \<open>F1\<close>; and cell 5 returns this value as \<open>fmcar1\<close>
  when the second slope is zero, for series of equal length and a nonzero variance of the
  active returns.
\<close>

theorem single_factor:
  assumes "length f1 = length f2" and "2 \<le> length f1" and "2 \<le> length active"
    and "sample_var active \<noteq> 0"
  shows "fmcar_formula [b1] [f1] active 0 = b1\<^sup>2 * sample_var f1 / sample_var active
    \<and> fmcar_cell (Fin b1) (Fin 0) (map Fin f1) (map Fin f2) (map Fin active) =
        Inr (Fin (b1\<^sup>2 * sample_var f1 / sample_var active), Fin 0)"
proof -
  have formula: "fmcar_formula [b1] [f1] active 0 = b1\<^sup>2 * sample_var f1 / sample_var active"
    by (simp add: fmcar_formula_def sample_var_def power2_eq_square)
  have "fmcar_cell (Fin b1) (Fin 0) (map Fin f1) (map Fin f2) (map Fin active) =
        Inr (Fin (b1\<^sup>2 * sample_var f1 / sample_var active), Fin 0)"
    unfolding fmcar_cell_Fin [OF assms(1,2,3)]
    using assms(4) by (simp add: sample_var_def power2_eq_square)
  with formula show ?thesis by simp
qed

theorem single_factor_witness:
  "sample_var [0, 2, 4] \<noteq> 0
   \<and> fmcar_formula [3] [[1, 2, 3]] [0, 2, 4] 0 = 9 / 4
   \<and> fmcar_cell (Fin 3) (Fin 0) (map Fin [1, 2, 3]) (map Fin [1, 3, 2]) (map Fin [0, 2, 4]) =
        Inr (Fin (9 / 4), Fin 0)"
proof -
  have v: "sample_var [0, 2, 4] = 4" "sample_var [1, 2, 3] = 1"
    by (simp_all add: sample_var_def sample_cov_def dev_products_def mean_def)
  have nz: "sample_var [0, 2, 4] \<noteq> 0" by (simp add: v)
  have l: "length [1, 2, 3 :: real] = length [1, 3, 2 :: real]" "2 \<le> length [1, 2, 3 :: real]"
    "2 \<le> length [0, 2, 4 :: real]"
    by simp_all
  show ?thesis
    using single_factor [OF l nz, of 3] nz by (simp add: v)
qed

text \<open>
  C6: the covariance matrix of the factors and the squared standard deviation of the active
  returns use the same normalisation. Applied to one series of observations, \<open>np.cov\<close> (its
  diagonal entry) and \<open>std()**2\<close> give the same value; and on \<open>n \<ge> 2\<close> observations every entry of the
  covariance matrix is a sum of products of deviations divided by \<open>n - 1\<close>, as is the
  squared standard deviation.
\<close>

theorem consistent_normalisation:
  "(xs \<noteq> [] \<longrightarrow> np_square (pd_std (map Fin xs)) = cov_entry (map Fin xs) (map Fin xs))
   \<and> (2 \<le> length f1 \<and> length f1 = length f2 \<longrightarrow>
        np_cov (map Fin f1) (map Fin f2) =
          Inr [[Fin (dev_products f1 f1 / (real (length f1) - 1)),
                Fin (dev_products f1 f2 / (real (length f1) - 1))],
               [Fin (dev_products f2 f1 / (real (length f1) - 1)),
                Fin (dev_products f2 f2 / (real (length f1) - 1))]])
   \<and> (2 \<le> length active \<longrightarrow>
        np_square (pd_std (map Fin active))
          = Fin (dev_products active active / (real (length active) - 1)))"
proof -
  have same: "xs \<noteq> [] \<longrightarrow> np_square (pd_std (map Fin xs)) = cov_entry (map Fin xs) (map Fin xs)"
  proof (cases "2 \<le> length xs")
    case True
    then show ?thesis by (simp add: ar_squared_Fin cov_entry_Fin sample_var_def)
  next
    case False
    then have "length xs \<le> 1" by simp
    then show ?thesis
      by (simp add: pd_std_def pd_var_short cov_entry_short np_square_def)
  qed
  have cov: "2 \<le> length f1 \<and> length f1 = length f2 \<longrightarrow>
        np_cov (map Fin f1) (map Fin f2) =
          Inr [[Fin (dev_products f1 f1 / (real (length f1) - 1)),
                Fin (dev_products f1 f2 / (real (length f1) - 1))],
               [Fin (dev_products f2 f1 / (real (length f1) - 1)),
                Fin (dev_products f2 f2 / (real (length f1) - 1))]]"
    by (simp add: np_cov_Fin sample_cov_def)
  have var: "2 \<le> length active \<longrightarrow>
        np_square (pd_std (map Fin active))
          = Fin (dev_products active active / (real (length active) - 1))"
    by (simp add: ar_squared_Fin sample_var_def sample_cov_def)
  from same cov var show ?thesis by blast
qed

theorem consistent_normalisation_witness:
  "np_cov (map Fin [1, 2, 3]) (map Fin [1, 3, 2]) =
     Inr [[Fin (2 / 2), Fin (1 / 2)], [Fin (1 / 2), Fin (2 / 2)]]
   \<and> np_square (pd_std (map Fin [0, 2, 4])) = Fin (8 / 2)
   \<and> np_square (pd_std (map Fin [7])) = cov_entry (map Fin [7]) (map Fin [7])"
proof -
  have d: "dev_products [1, 2, 3] [1, 2, 3] = 2" "dev_products [1, 2, 3] [1, 3, 2] = 1"
    "dev_products [1, 3, 2] [1, 2, 3] = 1" "dev_products [1, 3, 2] [1, 3, 2] = 2"
    "dev_products [0, 2, 4] [0, 2, 4] = 8"
    by (simp_all add: dev_products_def mean_def)
  show ?thesis
    using consistent_normalisation [of "[7]" "[1, 2, 3]" "[1, 3, 2]" "[0, 2, 4]"]
    by (simp add: d)
qed

section \<open>The worked tracking portfolio\<close>

text \<open>
  C3: with benchmark sensitivities \<open>(1, 1.1)\<close> and the three securities \<open>(0.7, 1.1)\<close>,
  \<open>(0.1, 0.5)\<close> and \<open>(1.5, 1.3)\<close>, the three equations of the example hold for the weights
  \<open>(1/3, 1/6, 1/2)\<close> and for no others.
\<close>

theorem tracking_example_unique:
  "tracking_equations example_benchmark example_x1 example_x2 example_x3 w
    \<longleftrightarrow> w = (1 / 3, 1 / 6, 1 / 2)"
proof (cases w)
  case (fields w1 w2 w3)
  have "(w1 * (7 / 10) + w2 * (1 / 10) + w3 * (3 / 2) = 1
       \<and> w1 * (11 / 10) + w2 * (1 / 2) + w3 * (13 / 10) = 11 / 10
       \<and> w1 + w2 + w3 = 1)
      \<longleftrightarrow> (w1 = 1 / 3 \<and> w2 = 1 / 6 \<and> w3 = 1 / 2)"
    by (auto simp: field_simps; linarith?)
  then show ?thesis
    by (simp add: fields tracking_equations_def example_benchmark_def example_x1_def
        example_x2_def example_x3_def)
qed

end
